theory Spec2Isabelle
  imports Complex_Main
begin

section \<open>Python values, errors and the library calls the scripts rely on\<close>

text \<open>
  The three scripts of the repository (\<^verbatim>\<open>1-basic.py\<close>, \<^verbatim>\<open>3-tools.py\<close>,
  \<^verbatim>\<open>2-routing.py\<close>) are embedded as HOL functions. Everything a script does beyond
  computing a value is explicit:
  \<^item> an exception is the \<open>Inl\<close> branch of a result \<open>py_error + 'a\<close>;
  \<^item> writing to the log or to standard output, a request to the chat endpoint and an
    HTTP request are \<open>event\<close>s appended to a trace, which every function takes and
    returns;
  \<^item> the answers of the outside world (the chat endpoint, the weather endpoint) are
    parameters, collected in the records \<open>routing_world\<close> and \<open>tools_world\<close>; each
    is given the trace so far, so that two equal requests may be answered differently;
  \<^item> functions of the Python library whose output the repository does not fix
    (\<open>repr\<close> of a number, JSON string escaping, \<open>json.loads\<close>) are fields of the
    record \<open>pylib\<close>.
\<close>

datatype py_error =
    IndexError
  | KeyError
  | TypeError
  | AttributeError
  | OpenAIError
  | LibraryError string

text \<open>
  A value as \<open>json.loads\<close> produces it and \<open>json.dumps\<close> accepts it. A dictionary is
  an association list in insertion order; a Python dictionary has no duplicate keys.
  A \<open>float\<close> is carried as the real number it stands for: the scripts never compute
  with one, they pass it on and render it through \<open>float_repr\<close>.
\<close>

datatype pyval =
    PyNone
  | PyBool bool
  | PyInt int
  | PyFloat real
  | PyStr string
  | PyList "pyval list"
  | PyDict "(string \<times> pyval) list"

record pylib =
  int_repr :: "int \<Rightarrow> string"
  float_repr :: "real \<Rightarrow> string"
  container_repr :: "pyval \<Rightarrow> string"
  encode_basestring :: "string \<Rightarrow> string"
  json_loads :: "string \<Rightarrow> py_error + pyval"

abbreviation squote :: string where
  "squote \<equiv> [CHR 0x27]"

text \<open>\<^verbatim>\<open>sep.join(xs)\<close>\<close>

fun str_join :: "string \<Rightarrow> string list \<Rightarrow> string" where
  "str_join sep [] = []"
| "str_join sep [x] = x"
| "str_join sep (x # y # ys) = x @ sep @ str_join sep (y # ys)"

text \<open>\<^verbatim>\<open>str(v)\<close>, which is what an f-string field \<^verbatim>\<open>{v}\<close> inserts.\<close>

definition py_str :: "pylib \<Rightarrow> pyval \<Rightarrow> string" where
  "py_str L v =
     (case v of
        PyNone \<Rightarrow> ''None''
      | PyBool b \<Rightarrow> (if b then ''True'' else ''False'')
      | PyInt i \<Rightarrow> int_repr L i
      | PyFloat x \<Rightarrow> float_repr L x
      | PyStr s \<Rightarrow> s
      | PyList xs \<Rightarrow> container_repr L v
      | PyDict kvs \<Rightarrow> container_repr L v)"

text \<open>\<^verbatim>\<open>str(v)\<close> of an optional string: \<^verbatim>\<open>None\<close> is rendered as the text \<^verbatim>\<open>None\<close>.\<close>

definition str_opt :: "string option \<Rightarrow> string" where
  "str_opt v = (case v of None \<Rightarrow> ''None'' | Some s \<Rightarrow> s)"

text \<open>
  \<^verbatim>\<open>json.dumps(v)\<close> with the default separators \<^verbatim>\<open>", "\<close> and \<^verbatim>\<open>": "\<close>;
  \<open>encode_basestring\<close> yields the quoted, escaped form of a string.
\<close>

fun json_dumps :: "pylib \<Rightarrow> pyval \<Rightarrow> string" where
  "json_dumps L PyNone = ''null''"
| "json_dumps L (PyBool b) = (if b then ''true'' else ''false'')"
| "json_dumps L (PyInt i) = int_repr L i"
| "json_dumps L (PyFloat x) = float_repr L x"
| "json_dumps L (PyStr s) = encode_basestring L s"
| "json_dumps L (PyList xs) = ''['' @ str_join '', '' (map (json_dumps L) xs) @ '']''"
| "json_dumps L (PyDict kvs) =
     ''{'' @ str_join '', ''
        (map (\<lambda>kv. encode_basestring L (fst kv) @ '': '' @ json_dumps L (snd kv)) kvs) @ ''}''"

text \<open>\<^verbatim>\<open>d[key]\<close> on a value: only a dictionary can be subscripted by a string.\<close>

definition subscript :: "pyval \<Rightarrow> string \<Rightarrow> py_error + pyval" where
  "subscript d k =
     (case d of
        PyDict kvs \<Rightarrow> (case map_of kvs k of None \<Rightarrow> Inl KeyError | Some v \<Rightarrow> Inr v)
      | _ \<Rightarrow> Inl TypeError)"

subsection \<open>The chat client\<close>

record function_call =
  fn_name :: string
  arguments :: string

record tool_call =
  tc_id :: string
  tc_function :: function_call

text \<open>
  The message of a completion choice. \<open>parsed\<close> is the structured output of
  \<^verbatim>\<open>client.beta.chat.completions.parse\<close> (\<^verbatim>\<open>None\<close> when the model refused); a plain
  \<^verbatim>\<open>create\<close> has none, its messages are \<open>unit chat_message\<close>.
\<close>

record 'p chat_message =
  content :: "string option"
  tool_calls :: "tool_call list option"
  parsed :: "'p option"

record 'p choice =
  choice_message :: "'p chat_message"

record 'p chat_completion =
  choices :: "'p choice list"

text \<open>
  An entry of the \<^verbatim>\<open>messages\<close> list: a dictionary literal of string fields, or the
  message object of an earlier completion.
\<close>

datatype conv_item =
    DictMsg "(string \<times> string) list"
  | MessageObj "unit chat_message"

record chat_request =
  req_model :: string
  req_messages :: "conv_item list"
  req_tools :: "pyval option"
  req_format :: "string option"

record client =
  api_key :: string

text \<open>
  \<^verbatim>\<open>OpenAI(api_key=os.getenv("OPENAI_API_KEY"))\<close>: the constructor raises when the key
  is \<^verbatim>\<open>None\<close> (its fallback is the same environment variable).
\<close>

definition OpenAI :: "string option \<Rightarrow> py_error + client" where
  "OpenAI k = (case k of None \<Rightarrow> Inl OpenAIError | Some s \<Rightarrow> Inr \<lparr>api_key = s\<rparr>)"

datatype event =
    LogInfo string
  | Stdout string
  | ChatCreate client chat_request
  | ChatParse client chat_request
  | HttpGet string

text \<open>\<^verbatim>\<open>completion.choices[0].message\<close>\<close>

definition first_message :: "'p chat_completion \<Rightarrow> py_error + 'p chat_message" where
  "first_message completion =
     (case choices completion of [] \<Rightarrow> Inl IndexError | ch # _ \<Rightarrow> Inr (choice_message ch))"

section \<open>The routing workflow (\<^verbatim>\<open>2-routing.py\<close>)\<close>

datatype request_literal = New_event | Modify_event | Other

fun request_literal_str :: "request_literal \<Rightarrow> string" where
  "request_literal_str New_event = ''new_event''"
| "request_literal_str Modify_event = ''modify_event''"
| "request_literal_str Other = ''other''"

record CalendarRequestType =
  request_type :: request_literal
  confidence_score :: real
  description :: string

record NewEventDetails =
  name :: string
  date :: string
  duration_minutes :: string
  participants :: "string list"

record Change =
  field :: string
  new_value :: string

record ModifyEventDetails =
  event_identifier :: string
  changes :: "Change list"
  participants_to_add :: "string list"
  participants_to_remove :: "string list"

record CalendarResponse =
  success :: bool
  message :: string
  calendar_link :: "string option"

text \<open>
  The structured-output calls of the chat endpoint, one per response format (each
  is given the trace up to the call, the client and the request), and pydantic's
  \<^verbatim>\<open>model_dump_json(indent = 2)\<close> of the two detail records.
\<close>

record routing_world =
  parse_request_type ::
    "event list \<Rightarrow> client \<Rightarrow> chat_request \<Rightarrow> py_error + CalendarRequestType chat_completion"
  parse_new_event ::
    "event list \<Rightarrow> client \<Rightarrow> chat_request \<Rightarrow> py_error + NewEventDetails chat_completion"
  parse_modify_event ::
    "event list \<Rightarrow> client \<Rightarrow> chat_request \<Rightarrow> py_error + ModifyEventDetails chat_completion"
  dump_new_event :: "NewEventDetails \<Rightarrow> string"
  dump_modify_event :: "ModifyEventDetails \<Rightarrow> string"

definition model :: string where
  "model = ''gpt-4o''"

definition parse_request :: "string \<Rightarrow> string \<Rightarrow> string \<Rightarrow> chat_request" where
  "parse_request system_content user_content response_format =
     \<lparr>req_model = model,
      req_messages =
        [DictMsg [(''role'', ''system''), (''content'', system_content)],
         DictMsg [(''role'', ''user''), (''content'', user_content)]],
      req_tools = None,
      req_format = Some response_format\<rparr>"

definition router_request :: "string \<Rightarrow> chat_request" where
  "router_request user_input =
     parse_request
       ''Determine if this is a request to create a new calendar event or modify an existing one.''
       user_input ''CalendarRequestType''"

definition new_event_request :: "string \<Rightarrow> chat_request" where
  "new_event_request descr =
     parse_request ''Extract details for creating a new calendar event.'' descr ''NewEventDetails''"

definition modify_event_request :: "string \<Rightarrow> chat_request" where
  "modify_event_request descr =
     parse_request ''Extract details for modifying an existing calendar event'' descr
       ''ModifyEventDetails''"

definition route_calendar_request ::
  "pylib \<Rightarrow> routing_world \<Rightarrow> client \<Rightarrow> string \<Rightarrow> event list
     \<Rightarrow> (py_error + CalendarRequestType) \<times> event list" where
  "route_calendar_request L W c user_input t =
     (let t1 = t @ [LogInfo ''Routing Calendar Request''];
          req = router_request user_input;
          t2 = t1 @ [ChatParse c req]
      in case parse_request_type W t1 c req of
           Inl e \<Rightarrow> (Inl e, t2)
         | Inr completion \<Rightarrow>
             (case first_message completion of
                Inl e \<Rightarrow> (Inl e, t2)
              | Inr m \<Rightarrow>
                  (case parsed m of
                     None \<Rightarrow> (Inl AttributeError, t2)
                   | Some result \<Rightarrow>
                       (Inr result,
                        t2 @ [LogInfo (''Request routed as: ''
                                @ request_literal_str (request_type result)
                                @ '' with confidence: ''
                                @ float_repr L (confidence_score result))]))))"

definition handle_new_event ::
  "routing_world \<Rightarrow> client \<Rightarrow> string \<Rightarrow> event list
     \<Rightarrow> (py_error + CalendarResponse) \<times> event list" where
  "handle_new_event W c descr t =
     (let t1 = t @ [LogInfo ''Processing new event request''];
          req = new_event_request descr;
          t2 = t1 @ [ChatParse c req]
      in case parse_new_event W t1 c req of
           Inl e \<Rightarrow> (Inl e, t2)
         | Inr completion \<Rightarrow>
             (case first_message completion of
                Inl e \<Rightarrow> (Inl e, t2)
              | Inr m \<Rightarrow>
                  (case parsed m of
                     None \<Rightarrow> (Inl AttributeError, t2)
                   | Some details \<Rightarrow>
                       (Inr \<lparr>success = True,
                             message = ''Created new event '' @ squote @ name details @ squote
                               @ '' for '' @ date details
                               @ '' with '' @ str_join '', '' (participants details),
                             calendar_link = Some (''calendar://new?event='' @ name details)\<rparr>,
                        t2 @ [LogInfo (''New event: '' @ dump_new_event W details)]))))"

definition handle_modify_event ::
  "routing_world \<Rightarrow> client \<Rightarrow> string \<Rightarrow> event list
     \<Rightarrow> (py_error + CalendarResponse) \<times> event list" where
  "handle_modify_event W c descr t =
     (let t1 = t @ [LogInfo ''Processing event modification request''];
          req = modify_event_request descr;
          t2 = t1 @ [ChatParse c req]
      in case parse_modify_event W t1 c req of
           Inl e \<Rightarrow> (Inl e, t2)
         | Inr completion \<Rightarrow>
             (case first_message completion of
                Inl e \<Rightarrow> (Inl e, t2)
              | Inr m \<Rightarrow>
                  (case parsed m of
                     None \<Rightarrow> (Inl AttributeError, t2)
                   | Some details \<Rightarrow>
                       (Inr \<lparr>success = True,
                             message = ''Modified event '' @ squote @ event_identifier details
                               @ squote @ '' with the requested change.'',
                             calendar_link =
                               Some (''calendar://modify?event='' @ event_identifier details)\<rparr>,
                        t2 @ [LogInfo (''Modified event: '' @ dump_modify_event W details)]))))"

section \<open>The tool-calling loop (\<^verbatim>\<open>3-tools.py\<close>)\<close>

text \<open>
  The response object of \<^verbatim>\<open>requests.get\<close>; \<open>response_json\<close> is what its
  \<^verbatim>\<open>json()\<close> method returns or raises.
\<close>

record http_response =
  status_code :: nat
  response_json :: "py_error + pyval"

record WeatherResponse =
  temperature :: real
  response :: string

record tools_world =
  chat_create ::
    "event list \<Rightarrow> client \<Rightarrow> chat_request \<Rightarrow> py_error + unit chat_completion"
  parse_weather ::
    "event list \<Rightarrow> client \<Rightarrow> chat_request \<Rightarrow> py_error + WeatherResponse chat_completion"
  requests_get :: "event list \<Rightarrow> string \<Rightarrow> py_error + http_response"

definition get_weather ::
  "pylib \<Rightarrow> tools_world \<Rightarrow> pyval \<Rightarrow> pyval \<Rightarrow> event list
     \<Rightarrow> (py_error + pyval) \<times> event list" where
  "get_weather L W latitude longitude t =
     (let url = ''https://api.open-meteo.com/v1/forecast?latitude='' @ py_str L latitude
            @ ''&longitude='' @ py_str L longitude
            @ ''&current=temperature_2m,wind_speed_10m''
            @ ''&hourly=temperature_2m,relative_humidity_2m,wind_speed_10m'';
          t1 = t @ [HttpGet url]
      in case requests_get W t url of
           Inl e \<Rightarrow> (Inl e, t1)
         | Inr resp \<Rightarrow>
             (case response_json resp of
                Inl e \<Rightarrow> (Inl e, t1)
              | Inr data \<Rightarrow> (subscript data ''current'', t1)))"

definition tools :: pyval where
  "tools =
     PyList
      [PyDict
        [(''type'', PyStr ''function''),
         (''function'',
          PyDict
           [(''name'', PyStr ''get_weather''),
            (''description'', PyStr ''Get current temperature for a given location.''),
            (''parameters'',
             PyDict
              [(''type'', PyStr ''object''),
               (''properties'',
                PyDict
                 [(''latitude'', PyDict [(''type'', PyStr ''number'')]),
                  (''longitude'', PyDict [(''type'', PyStr ''number'')])]),
               (''required'', PyList [PyStr ''latitude'', PyStr ''longitude'']),
               (''additionalProperties'', PyBool False)]),
            (''strict'', PyBool True)])]]"

definition system_prompt :: string where
  "system_prompt = ''You are a helpful weather assitant.''"

definition messages :: "conv_item list" where
  "messages =
     [DictMsg [(''role'', ''system''), (''content'', system_prompt)],
      DictMsg [(''role'', ''user''), (''content'', ''What'' @ squote
        @ ''s the weather like in Paris today?'')]]"

text \<open>
  The call \<^verbatim>\<open>get_weather(**args)\<close> binds the keyword arguments: \<open>args\<close> has to be a
  dictionary whose keys are parameters of \<open>get_weather\<close>, and both parameters have to
  be given; otherwise the call raises \<^verbatim>\<open>TypeError\<close>.
\<close>

definition bind_kwargs :: "pyval \<Rightarrow> py_error + pyval \<times> pyval" where
  "bind_kwargs args =
     (case args of
        PyDict kvs \<Rightarrow>
          (if list_all (\<lambda>k. k = ''latitude'' \<or> k = ''longitude'') (map fst kvs)
           then (case map_of kvs ''latitude'' of
                   None \<Rightarrow> Inl TypeError
                 | Some latitude \<Rightarrow>
                     (case map_of kvs ''longitude'' of
                        None \<Rightarrow> Inl TypeError
                      | Some longitude \<Rightarrow> Inr (latitude, longitude)))
           else Inl TypeError)
      | _ \<Rightarrow> Inl TypeError)"

definition call_function ::
  "pylib \<Rightarrow> tools_world \<Rightarrow> string \<Rightarrow> pyval \<Rightarrow> event list
     \<Rightarrow> (py_error + pyval) \<times> event list" where
  "call_function L W nm args t =
     (if nm = ''get_weather''
      then (case bind_kwargs args of
              Inl e \<Rightarrow> (Inl e, t)
            | Inr (latitude, longitude) \<Rightarrow> get_weather L W latitude longitude t)
      else (Inr PyNone, t))"

text \<open>
  The body of the \<^verbatim>\<open>for\<close> loop over the tool calls of the message \<open>m\<close>
  (\<^verbatim>\<open>completion.choices[0].message\<close>), on the conversation \<open>msgs\<close>. An exception ends
  the script; what was appended before it stays appended.
\<close>

fun tool_loop ::
  "pylib \<Rightarrow> tools_world \<Rightarrow> unit chat_message \<Rightarrow> tool_call list \<Rightarrow> conv_item list
     \<Rightarrow> event list \<Rightarrow> (py_error + unit) \<times> conv_item list \<times> event list" where
  "tool_loop L W m [] msgs t = (Inr (), msgs, t)"
| "tool_loop L W m (tc # rest) msgs t =
     (let nm = fn_name (tc_function tc) in
      case json_loads L (arguments (tc_function tc)) of
        Inl e \<Rightarrow> (Inl e, msgs, t)
      | Inr args \<Rightarrow>
          (let msgs1 = msgs @ [MessageObj m] in
           case call_function L W nm args t of
             (Inl e, t1) \<Rightarrow> (Inl e, msgs1, t1)
           | (Inr result, t1) \<Rightarrow>
               tool_loop L W m rest
                 (msgs1 @ [DictMsg [(''role'', ''tool''), (''tool_call_id'', tc_id tc),
                                    (''content'', json_dumps L result)]])
                 t1))"

text \<open>
  The \<^verbatim>\<open>for\<close> statement: its header reads \<^verbatim>\<open>completion.choices[0].message.tool_calls\<close>,
  which is \<^verbatim>\<open>None\<close> (not iterable) when the model called no tool.
\<close>

definition run_tool_calls ::
  "pylib \<Rightarrow> tools_world \<Rightarrow> unit chat_completion \<Rightarrow> conv_item list \<Rightarrow> event list
     \<Rightarrow> (py_error + unit) \<times> conv_item list \<times> event list" where
  "run_tool_calls L W completion msgs t =
     (case first_message completion of
        Inl e \<Rightarrow> (Inl e, msgs, t)
      | Inr m \<Rightarrow>
          (case tool_calls m of
             None \<Rightarrow> (Inl TypeError, msgs, t)
           | Some tcs \<Rightarrow> tool_loop L W m tcs msgs t))"

text \<open>The whole script, from the process environment to \<^verbatim>\<open>final_response\<close>.\<close>

definition tools_script ::
  "pylib \<Rightarrow> tools_world \<Rightarrow> (string \<rightharpoonup> string)
     \<Rightarrow> (py_error + WeatherResponse) \<times> conv_item list \<times> event list" where
  "tools_script L W environ =
     (case OpenAI (environ ''OPENAI_API_KEY'') of
        Inl e \<Rightarrow> (Inl e, messages, [])
      | Inr c \<Rightarrow>
          (let req = \<lparr>req_model = ''gpt-4o'', req_messages = messages,
                      req_tools = Some tools, req_format = None\<rparr>;
               t1 = [ChatCreate c req]
           in case chat_create W [] c req of
                Inl e \<Rightarrow> (Inl e, messages, t1)
              | Inr completion \<Rightarrow>
                  (case run_tool_calls L W completion messages t1 of
                     (Inl e, msgs, t2) \<Rightarrow> (Inl e, msgs, t2)
                   | (Inr u, msgs, t2) \<Rightarrow>
                       (let req2 = \<lparr>req_model = ''gpt-4o'', req_messages = msgs,
                                    req_tools = Some tools,
                                    req_format = Some ''WeatherResponse''\<rparr>;
                            t3 = t2 @ [ChatParse c req2]
                        in case parse_weather W t2 c req2 of
                             Inl e \<Rightarrow> (Inl e, msgs, t3)
                           | Inr completion_2 \<Rightarrow>
                               (case first_message completion_2 of
                                  Inl e \<Rightarrow> (Inl e, msgs, t3)
                                | Inr m2 \<Rightarrow>
                                    (case parsed m2 of
                                       None \<Rightarrow> (Inl AttributeError, msgs, t3)
                                     | Some final_response \<Rightarrow>
                                         (Inr final_response, msgs, t3)))))))"

section \<open>The basic completion (\<^verbatim>\<open>1-basic.py\<close>)\<close>

text \<open>
  \<^verbatim>\<open>load_dotenv()\<close> adds the entries of the \<^verbatim>\<open>.env\<close> file to the process
  environment; a variable that is already set keeps its value.
\<close>

definition load_dotenv :: "(string \<rightharpoonup> string) \<Rightarrow> (string \<rightharpoonup> string) \<Rightarrow> (string \<rightharpoonup> string)" where
  "load_dotenv dotenv environ =
     (\<lambda>k. case environ k of Some v \<Rightarrow> Some v | None \<Rightarrow> dotenv k)"

text \<open>\<^verbatim>\<open>print(v)\<close> writes \<^verbatim>\<open>str(v)\<close> and a newline to standard output.\<close>

definition print :: "string option \<Rightarrow> event" where
  "print v = Stdout (str_opt v @ [CHR 0x0A])"

definition basic_request :: chat_request where
  "basic_request =
     \<lparr>req_model = ''gpt-4o'',
      req_messages =
        [DictMsg [(''role'', ''system''), (''content'', ''You'' @ squote
           @ ''re a helpful assistant'')],
         DictMsg [(''role'', ''user''),
           (''content'', ''Write a limerick about the Python Programming.'')]],
      req_tools = None,
      req_format = None\<rparr>"

definition basic_script ::
  "(event list \<Rightarrow> client \<Rightarrow> chat_request \<Rightarrow> py_error + unit chat_completion)
     \<Rightarrow> (string \<rightharpoonup> string) \<Rightarrow> (string \<rightharpoonup> string) \<Rightarrow> (py_error + unit) \<times> event list" where
  "basic_script create dotenv environ0 =
     (let environ = load_dotenv dotenv environ0;
          openai_api_key = environ ''OPENAI_API_KEY'';
          t1 = [print openai_api_key]
      in case OpenAI (environ ''OPENAI_API_KEY'') of
           Inl e \<Rightarrow> (Inl e, t1)
         | Inr c \<Rightarrow>
             (let t2 = t1 @ [ChatCreate c basic_request] in
              case create t1 c basic_request of
                Inl e \<Rightarrow> (Inl e, t2)
              | Inr completion \<Rightarrow>
                  (case first_message completion of
                     Inl e \<Rightarrow> (Inl e, t2)
                   | Inr m \<Rightarrow> (Inr (), t2 @ [print (content m)]))))"

text \<open>What a trace has written to standard output.\<close>

fun stdout :: "event list \<Rightarrow> string" where
  "stdout [] = []"
| "stdout (Stdout s # evs) = s @ stdout evs"
| "stdout (e # evs) = stdout evs"

section \<open>Sample data for concrete runs\<close>

abbreviation dquote :: string where
  "dquote \<equiv> [CHR 0x22]"

definition paris_arguments :: string where
  "paris_arguments =
     ''{'' @ dquote @ ''latitude'' @ dquote @ '': 48.85, ''
       @ dquote @ ''longitude'' @ dquote @ '': 2.35}''"

definition sample_lib :: pylib where
  "sample_lib =
     \<lparr>int_repr = (\<lambda>i. if i = 0 then ''0'' else ''1''),
      float_repr =
        (\<lambda>x. if x = 48.85 then ''48.85'' else if x = 2.35 then ''2.35'' else ''0.9''),
      container_repr = (\<lambda>v. ''[]''),
      encode_basestring = (\<lambda>s. dquote @ s @ dquote),
      json_loads =
        (\<lambda>s. if s = paris_arguments
             then Inr (PyDict [(''latitude'', PyFloat 48.85), (''longitude'', PyFloat 2.35)])
             else if s = ''{}'' then Inr (PyDict [])
             else Inl (LibraryError ''JSONDecodeError''))\<rparr>"

definition completion_of :: "'p \<Rightarrow> 'p chat_completion" where
  "completion_of p =
     \<lparr>choices = [\<lparr>choice_message = \<lparr>content = None, tool_calls = None, parsed = Some p\<rparr>\<rparr>]\<rparr>"

definition team_sync_new :: NewEventDetails where
  "team_sync_new =
     \<lparr>name = ''Team Sync'', date = ''2025-01-10T10:00'', duration_minutes = ''30'',
      participants = [''Alice'', ''Bob'']\<rparr>"

definition team_sync_modify :: "Change list \<Rightarrow> ModifyEventDetails" where
  "team_sync_modify chs =
     \<lparr>event_identifier = ''Team Sync'', changes = chs,
      participants_to_add = map new_value chs, participants_to_remove = map field chs\<rparr>"

definition sample_classification :: "request_literal \<Rightarrow> CalendarRequestType" where
  "sample_classification cat =
     \<lparr>request_type = cat, confidence_score = 0.9,
      description = ''Team Sync with Alice and Bob''\<rparr>"

definition sample_routing_world :: "request_literal \<Rightarrow> Change list \<Rightarrow> routing_world" where
  "sample_routing_world cat chs =
     \<lparr>parse_request_type = (\<lambda>t c req. Inr (completion_of (sample_classification cat))),
      parse_new_event = (\<lambda>t c req. Inr (completion_of team_sync_new)),
      parse_modify_event = (\<lambda>t c req. Inr (completion_of (team_sync_modify chs))),
      dump_new_event = name,
      dump_modify_event = event_identifier\<rparr>"

text \<open>
  A completion whose one choice carries no parsed record (the model refused), and a
  world whose classification call answers with a given completion.
\<close>

definition refusal :: "'p chat_completion" where
  "refusal =
     \<lparr>choices = [\<lparr>choice_message = \<lparr>content = None, tool_calls = None, parsed = None\<rparr>\<rparr>]\<rparr>"

definition routing_world_answering :: "CalendarRequestType chat_completion \<Rightarrow> routing_world" where
  "routing_world_answering completion =
     \<lparr>parse_request_type = (\<lambda>t c req. Inr completion),
      parse_new_event = (\<lambda>t c req. Inr (completion_of team_sync_new)),
      parse_modify_event = (\<lambda>t c req. Inr (completion_of (team_sync_modify []))),
      dump_new_event = name,
      dump_modify_event = event_identifier\<rparr>"

definition sample_client :: client where
  "sample_client = \<lparr>api_key = ''sk-test''\<rparr>"

definition paris_call :: tool_call where
  "paris_call =
     \<lparr>tc_id = ''call_1'',
      tc_function = \<lparr>fn_name = ''get_weather'', arguments = paris_arguments\<rparr>\<rparr>"

definition unknown_call :: tool_call where
  "unknown_call =
     \<lparr>tc_id = ''call_2'', tc_function = \<lparr>fn_name = ''get_time'', arguments = ''{}''\<rparr>\<rparr>"

definition assistant_message :: "tool_call list \<Rightarrow> unit chat_message" where
  "assistant_message tcs = \<lparr>content = None, tool_calls = Some tcs, parsed = None\<rparr>"

definition paris_weather :: pyval where
  "paris_weather = PyDict [(''temperature_2m'', PyFloat 2.35), (''wind_speed_10m'', PyInt 0)]"

definition sample_tools_world :: "tool_call list \<Rightarrow> tools_world" where
  "sample_tools_world tcs =
     \<lparr>chat_create =
        (\<lambda>t c req. Inr \<lparr>choices = [\<lparr>choice_message = assistant_message tcs\<rparr>]\<rparr>),
      parse_weather =
        (\<lambda>t c req. Inr (completion_of \<lparr>temperature = 2.35, response = ''Cold.''\<rparr>)),
      requests_get =
        (\<lambda>t url. Inr \<lparr>status_code = 200,
                         response_json = Inr (PyDict [(''current'', paris_weather)])\<rparr>)\<rparr>"

definition sample_create ::
  "string option \<Rightarrow> event list \<Rightarrow> client \<Rightarrow> chat_request
     \<Rightarrow> py_error + unit chat_completion" where
  "sample_create answer t c req =
     Inr \<lparr>choices = [\<lparr>choice_message = \<lparr>content = answer, tool_calls = None,
                                               parsed = None\<rparr>\<rparr>]\<rparr>"

definition sample_change :: Change where
  "sample_change = \<lparr>field = ''date'', new_value = ''2025-01-11T10:00''\<rparr>"

section \<open>Notions used to state the properties\<close>

text \<open>
  A handler has been entered when its first action, the log line that announces it,
  is among the events.
\<close>

definition new_event_dispatched :: "event list \<Rightarrow> bool" where
  "new_event_dispatched evs = (LogInfo ''Processing new event request'' \<in> set evs)"

definition modify_event_dispatched :: "event list \<Rightarrow> bool" where
  "modify_event_dispatched evs =
     (LogInfo ''Processing event modification request'' \<in> set evs)"

text \<open>
  Dispatch by category, as a property of one run of the routing function started on
  the trace \<open>t\<close>: among the events the run adds, the handler of the returned category
  has been entered, and none has for the category \<open>other\<close>.
\<close>

definition dispatches_by_category ::
  "pylib \<Rightarrow> routing_world \<Rightarrow> client \<Rightarrow> string \<Rightarrow> event list \<Rightarrow> bool" where
  "dispatches_by_category L W c user_input t =
     (let run = route_calendar_request L W c user_input t;
          evs = drop (length t) (snd run)
      in case fst run of
           Inl e \<Rightarrow> True
         | Inr r \<Rightarrow>
             (case request_type r of
                New_event \<Rightarrow> new_event_dispatched evs
              | Modify_event \<Rightarrow> modify_event_dispatched evs
              | Other \<Rightarrow> \<not> new_event_dispatched evs \<and> \<not> modify_event_dispatched evs))"

text \<open>The dictionary the loop appends for a tool call and the result of its function.\<close>

definition tool_message :: "pylib \<Rightarrow> tool_call \<Rightarrow> pyval \<Rightarrow> conv_item" where
  "tool_message L tc result =
     DictMsg [(''role'', ''tool''), (''tool_call_id'', tc_id tc),
              (''content'', json_dumps L result)]"

text \<open>A copy of the message \<open>m\<close> in front of each of the given entries.\<close>

definition interleaved :: "unit chat_message \<Rightarrow> conv_item list \<Rightarrow> conv_item list" where
  "interleaved m tool_msgs = concat (map (\<lambda>x. [MessageObj m, x]) tool_msgs)"

text \<open>
  What the basic script prints after the line of the key, given the answer of the
  endpoint: the line of the response, or nothing when the call or the access to the
  first choice raised.
\<close>

definition response_output :: "py_error + unit chat_completion \<Rightarrow> string" where
  "response_output answer =
     (case answer of
        Inl e \<Rightarrow> []
      | Inr completion \<Rightarrow>
          (case first_message completion of
             Inl e \<Rightarrow> []
           | Inr m \<Rightarrow> str_opt (content m) @ [CHR 0x0A]))"

section \<open>Properties of the routing workflow\<close>

lemma first_message_completion_of:
  "first_message (completion_of p) = Inr \<lparr>content = None, tool_calls = None, parsed = Some p\<rparr>"
  by (simp add: first_message_def completion_of_def)

lemma route_calendar_request_trace:
  "snd (route_calendar_request L W c user_input t) =
     t @ [LogInfo ''Routing Calendar Request'', ChatParse c (router_request user_input)]
       @ (case fst (route_calendar_request L W c user_input t) of
            Inl e \<Rightarrow> []
          | Inr r \<Rightarrow>
              [LogInfo (''Request routed as: '' @ request_literal_str (request_type r)
                 @ '' with confidence: '' @ float_repr L (confidence_score r))])"
  by (simp add: route_calendar_request_def Let_def split: sum.splits option.splits)

lemma route_calendar_request_result:
  "fst (route_calendar_request L W c user_input t) =
     (case parse_request_type W (t @ [LogInfo ''Routing Calendar Request'']) c
             (router_request user_input) of
        Inl e \<Rightarrow> Inl e
      | Inr completion \<Rightarrow>
          (case first_message completion of
             Inl e \<Rightarrow> Inl e
           | Inr m \<Rightarrow> (case parsed m of None \<Rightarrow> Inl AttributeError | Some r \<Rightarrow> Inr r)))"
  by (simp add: route_calendar_request_def Let_def split: sum.splits option.splits)

text \<open>
  C1, as stated, fails: the source defines the classifier and the two handlers and
  nothing that calls a handler. On a classification \<open>new_event\<close> the routing function
  returns the record and \<open>handle_new_event\<close> has not been entered.
\<close>

theorem route_new_event_not_dispatched:
  "route_calendar_request sample_lib (sample_routing_world New_event []) sample_client
       ''Team Sync with Alice and Bob'' []
     = (Inr (sample_classification New_event),
        [LogInfo ''Routing Calendar Request'',
         ChatParse sample_client (router_request ''Team Sync with Alice and Bob''),
         LogInfo ''Request routed as: new_event with confidence: 0.9''])
   \<and> request_type (sample_classification New_event) = New_event
   \<and> \<not> dispatches_by_category sample_lib (sample_routing_world New_event []) sample_client
         ''Team Sync with Alice and Bob'' []"
  by (simp add: dispatches_by_category_def route_calendar_request_def Let_def
      sample_routing_world_def first_message_completion_of sample_classification_def
      new_event_dispatched_def sample_lib_def)

text \<open>
  C1, amended: \<open>route_calendar_request\<close> only classifies. Whatever the category, a run
  adds its first log line, the one classification request and, when a record was
  parsed, the log line that reports it; it returns the record parsed from the first
  choice of the classification call, unchanged, and raises when the call raises, when
  there is no choice or when the choice carries no parsed record; neither handler is
  entered. A handler is entered only by calling it, which the source leaves to the
  caller.
\<close>

theorem route_calendar_request_classifies_only:
  "snd (route_calendar_request L W c user_input t) =
     t @ [LogInfo ''Routing Calendar Request'', ChatParse c (router_request user_input)]
       @ (case fst (route_calendar_request L W c user_input t) of
            Inl e \<Rightarrow> []
          | Inr r \<Rightarrow>
              [LogInfo (''Request routed as: '' @ request_literal_str (request_type r)
                 @ '' with confidence: '' @ float_repr L (confidence_score r))])
   \<and> fst (route_calendar_request L W c user_input t) =
       (case parse_request_type W (t @ [LogInfo ''Routing Calendar Request'']) c
               (router_request user_input) of
          Inl e \<Rightarrow> Inl e
        | Inr completion \<Rightarrow>
            (case first_message completion of
               Inl e \<Rightarrow> Inl e
             | Inr m \<Rightarrow> (case parsed m of None \<Rightarrow> Inl AttributeError | Some r \<Rightarrow> Inr r)))
   \<and> \<not> new_event_dispatched (drop (length t) (snd (route_calendar_request L W c user_input t)))
   \<and> \<not> modify_event_dispatched (drop (length t) (snd (route_calendar_request L W c user_input t)))
   \<and> new_event_dispatched (drop (length t') (snd (handle_new_event W c descr t')))
   \<and> modify_event_dispatched (drop (length t') (snd (handle_modify_event W c descr t')))"
proof -
  let ?run = "route_calendar_request L W c user_input t"
  have tr: "snd ?run =
     t @ [LogInfo ''Routing Calendar Request'', ChatParse c (router_request user_input)]
       @ (case fst ?run of
            Inl e \<Rightarrow> []
          | Inr r \<Rightarrow>
              [LogInfo (''Request routed as: '' @ request_literal_str (request_type r)
                 @ '' with confidence: '' @ float_repr L (confidence_score r))])"
    by (rule route_calendar_request_trace)
  have res: "fst ?run =
       (case parse_request_type W (t @ [LogInfo ''Routing Calendar Request'']) c
               (router_request user_input) of
          Inl e \<Rightarrow> Inl e
        | Inr completion \<Rightarrow>
            (case first_message completion of
               Inl e \<Rightarrow> Inl e
             | Inr m \<Rightarrow> (case parsed m of None \<Rightarrow> Inl AttributeError | Some r \<Rightarrow> Inr r)))"
    by (rule route_calendar_request_result)
  have n: "\<not> new_event_dispatched (drop (length t) (snd ?run))"
    by (subst tr) (simp add: new_event_dispatched_def split: sum.splits)
  have m: "\<not> modify_event_dispatched (drop (length t) (snd ?run))"
    by (subst tr) (simp add: modify_event_dispatched_def split: sum.splits)
  have hn: "new_event_dispatched (drop (length t') (snd (handle_new_event W c descr t')))"
    by (simp add: handle_new_event_def new_event_dispatched_def Let_def
        split: sum.splits option.splits)
  have hm: "modify_event_dispatched (drop (length t') (snd (handle_modify_event W c descr t')))"
    by (simp add: handle_modify_event_def modify_event_dispatched_def Let_def
        split: sum.splits option.splits)
  from tr res n m hn hm show ?thesis by blast
qed

text \<open>
  C6, as stated, fails: not every input gets a record. When the classification call
  succeeds and the model has refused, the choice carries no parsed record and the
  function raises \<^verbatim>\<open>AttributeError\<close> on reading its request type; when the
  completion has no choice it raises \<^verbatim>\<open>IndexError\<close>.
\<close>

theorem route_calendar_request_refusal_raises:
  "fst (route_calendar_request sample_lib (routing_world_answering refusal) sample_client
          ''Team Sync with Alice and Bob'' []) = Inl AttributeError
   \<and> fst (route_calendar_request sample_lib (routing_world_answering \<lparr>choices = []\<rparr>)
            sample_client ''Team Sync with Alice and Bob'' []) = Inl IndexError"
  by (simp add: route_calendar_request_def routing_world_answering_def refusal_def
      first_message_def Let_def)

text \<open>
  C6, amended: for every input, what \<open>route_calendar_request\<close> returns is decided by
  the classification call alone. It returns a record exactly when the call succeeds,
  the completion has a first choice and that choice carries a parsed record, and it
  returns that record unchanged: a request type that is one of \<open>new_event\<close>,
  \<open>modify_event\<close>, \<open>other\<close> (the values of the declared type), a confidence score
  and a description. Otherwise it raises: the error of the call, \<^verbatim>\<open>IndexError\<close> for
  no choice, \<^verbatim>\<open>AttributeError\<close> for no parsed record.
\<close>

theorem route_calendar_request_contract:
  "fst (route_calendar_request L W c user_input t) =
     (case parse_request_type W (t @ [LogInfo ''Routing Calendar Request'']) c
             (router_request user_input) of
        Inl e \<Rightarrow> Inl e
      | Inr completion \<Rightarrow>
          (case first_message completion of
             Inl e \<Rightarrow> Inl e
           | Inr m \<Rightarrow> (case parsed m of None \<Rightarrow> Inl AttributeError | Some r \<Rightarrow> Inr r)))
   \<and> ((\<exists>r. fst (route_calendar_request L W c user_input t) = Inr r) =
        (\<exists>completion m r.
           parse_request_type W (t @ [LogInfo ''Routing Calendar Request'']) c
             (router_request user_input) = Inr completion
           \<and> first_message completion = Inr m \<and> parsed m = Some r))
   \<and> (\<forall>r. fst (route_calendar_request L W c user_input t) = Inr r \<longrightarrow>
         r = \<lparr>request_type = request_type r, confidence_score = confidence_score r,
               description = description r\<rparr>
         \<and> (\<exists>!cat. cat \<in> {New_event, Modify_event, Other} \<and> request_type r = cat)
         \<and> request_literal_str (request_type r) \<in> {''new_event'', ''modify_event'', ''other''})"
proof -
  let ?run = "route_calendar_request L W c user_input t"
  have res: "fst ?run =
     (case parse_request_type W (t @ [LogInfo ''Routing Calendar Request'']) c
             (router_request user_input) of
        Inl e \<Rightarrow> Inl e
      | Inr completion \<Rightarrow>
          (case first_message completion of
             Inl e \<Rightarrow> Inl e
           | Inr m \<Rightarrow> (case parsed m of None \<Rightarrow> Inl AttributeError | Some r \<Rightarrow> Inr r)))"
    by (rule route_calendar_request_result)
  have iff: "(\<exists>r. fst ?run = Inr r) =
        (\<exists>completion m r.
           parse_request_type W (t @ [LogInfo ''Routing Calendar Request'']) c
             (router_request user_input) = Inr completion
           \<and> first_message completion = Inr m \<and> parsed m = Some r)"
    by (subst res) (auto split: sum.splits option.splits)
  have ty: "\<forall>r. fst ?run = Inr r \<longrightarrow>
         r = \<lparr>request_type = request_type r, confidence_score = confidence_score r,
               description = description r\<rparr>
         \<and> (\<exists>!cat. cat \<in> {New_event, Modify_event, Other} \<and> request_type r = cat)
         \<and> request_literal_str (request_type r) \<in> {''new_event'', ''modify_event'', ''other''}"
  proof (intro allI impI conjI)
    fix r
    show "r = \<lparr>request_type = request_type r, confidence_score = confidence_score r,
               description = description r\<rparr>"
      by simp
    show "\<exists>!cat. cat \<in> {New_event, Modify_event, Other} \<and> request_type r = cat"
      by (cases "request_type r") auto
    show "request_literal_str (request_type r) \<in> {''new_event'', ''modify_event'', ''other''}"
      by (cases "request_type r") simp_all
  qed
  from res iff ty show ?thesis by blast
qed

theorem route_calendar_request_contract_witness:
  "parse_request_type (sample_routing_world Other []) ([] @ [LogInfo ''Routing Calendar Request''])
       sample_client (router_request ''What is the weather?'')
     = Inr (completion_of (sample_classification Other))
   \<and> fst (route_calendar_request sample_lib (sample_routing_world Other []) sample_client
            ''What is the weather?'' []) = Inr (sample_classification Other)
   \<and> request_literal_str (request_type (sample_classification Other)) = ''other''
   \<and> request_literal_str (request_type (sample_classification Other))
       \<in> {''new_event'', ''modify_event'', ''other''}"
proof -
  let ?W = "sample_routing_world Other []"
  have h1: "parse_request_type ?W ([] @ [LogInfo ''Routing Calendar Request'']) sample_client
       (router_request ''What is the weather?'')
     = Inr (completion_of (sample_classification Other))"
    by (simp add: sample_routing_world_def)
  have h2: "first_message (completion_of (sample_classification Other))
     = Inr \<lparr>content = None, tool_calls = None, parsed = Some (sample_classification Other)\<rparr>"
    by (rule first_message_completion_of)
  note inst = route_calendar_request_contract
    [of sample_lib ?W sample_client "''What is the weather?''" "[]"]
  from inst h1 h2 have r: "fst (route_calendar_request sample_lib ?W sample_client
            ''What is the weather?'' []) = Inr (sample_classification Other)"
    by simp
  with inst have "request_literal_str (request_type (sample_classification Other))
       \<in> {''new_event'', ''modify_event'', ''other''}"
    by blast
  moreover have "request_literal_str (request_type (sample_classification Other)) = ''other''"
    by (simp add: sample_classification_def)
  ultimately show ?thesis using h1 r by simp
qed

subsection \<open>The two extraction handlers\<close>

text \<open>
  What a handler returns, and the events it adds, once the extraction call has
  yielded the parsed record \<open>d\<close>.
\<close>

lemma handle_new_event_parsed:
  assumes "parse_new_event W (t @ [LogInfo ''Processing new event request'']) c
             (new_event_request descr) = Inr completion"
      and "first_message completion = Inr m"
      and "parsed m = Some d"
  shows "handle_new_event W c descr t =
           (Inr \<lparr>success = True,
                 message = ''Created new event '' @ squote @ name d @ squote @ '' for '' @ date d
                   @ '' with '' @ str_join '', '' (participants d),
                 calendar_link = Some (''calendar://new?event='' @ name d)\<rparr>,
            t @ [LogInfo ''Processing new event request'', ChatParse c (new_event_request descr),
                 LogInfo (''New event: '' @ dump_new_event W d)])"
  using assms by (simp add: handle_new_event_def Let_def)

lemma handle_modify_event_parsed:
  assumes "parse_modify_event W (t @ [LogInfo ''Processing event modification request'']) c
             (modify_event_request descr) = Inr completion"
      and "first_message completion = Inr m"
      and "parsed m = Some d"
  shows "handle_modify_event W c descr t =
           (Inr \<lparr>success = True,
                 message = ''Modified event '' @ squote @ event_identifier d @ squote
                   @ '' with the requested change.'',
                 calendar_link = Some (''calendar://modify?event='' @ event_identifier d)\<rparr>,
            t @ [LogInfo ''Processing event modification request'',
                 ChatParse c (modify_event_request descr),
                 LogInfo (''Modified event: '' @ dump_modify_event W d)])"
  using assms by (simp add: handle_modify_event_def Let_def)

lemma handle_new_event_returns:
  assumes "fst (handle_new_event W c descr t) = Inr resp"
  shows "success resp \<and> (\<exists>nm. calendar_link resp = Some (''calendar://new?event='' @ nm))"
  using assms
  by (auto simp add: handle_new_event_def Let_def split: sum.splits option.splits)

lemma handle_modify_event_returns:
  assumes "fst (handle_modify_event W c descr t) = Inr resp"
  shows "success resp \<and> (\<exists>nm. calendar_link resp = Some (''calendar://modify?event='' @ nm))"
  using assms
  by (auto simp add: handle_modify_event_def Let_def split: sum.splits option.splits)

text \<open>
  C2: when the new-event extraction yields name \<open>Team Sync\<close>, date
  \<open>2025-01-10T10:00\<close> and participants \<open>Alice\<close>, \<open>Bob\<close>, the handler returns a
  response whose message is exactly
  \<^verbatim>\<open>Created new event 'Team Sync' for 2025-01-10T10:00 with Alice, Bob\<close>.
\<close>

theorem handle_new_event_team_sync:
  assumes "parse_new_event W (t @ [LogInfo ''Processing new event request'']) c
             (new_event_request descr) = Inr completion"
      and "first_message completion = Inr m"
      and "parsed m = Some details"
      and "name details = ''Team Sync''"
      and "date details = ''2025-01-10T10:00''"
      and "participants details = [''Alice'', ''Bob'']"
  shows "\<exists>resp. fst (handle_new_event W c descr t) = Inr resp \<and>
           message resp = ''Created new event 'Team Sync' for 2025-01-10T10:00 with Alice, Bob''"
  using handle_new_event_parsed [OF assms(1-3)] assms(4-6) by simp

theorem handle_new_event_team_sync_witness:
  "parse_new_event (sample_routing_world New_event [])
       ([] @ [LogInfo ''Processing new event request'']) sample_client
       (new_event_request ''Team Sync with Alice and Bob'')
     = Inr (completion_of team_sync_new)
   \<and> name team_sync_new = ''Team Sync''
   \<and> date team_sync_new = ''2025-01-10T10:00''
   \<and> participants team_sync_new = [''Alice'', ''Bob'']
   \<and> (\<exists>resp. fst (handle_new_event (sample_routing_world New_event []) sample_client
                     ''Team Sync with Alice and Bob'' []) = Inr resp \<and>
           message resp = ''Created new event 'Team Sync' for 2025-01-10T10:00 with Alice, Bob'')"
proof -
  have h1: "parse_new_event (sample_routing_world New_event [])
       ([] @ [LogInfo ''Processing new event request'']) sample_client
       (new_event_request ''Team Sync with Alice and Bob'')
     = Inr (completion_of team_sync_new)"
    by (simp add: sample_routing_world_def)
  have h2: "first_message (completion_of team_sync_new)
     = Inr \<lparr>content = None, tool_calls = None, parsed = Some team_sync_new\<rparr>"
    by (rule first_message_completion_of)
  have h3: "parsed \<lparr>content = None, tool_calls = None, parsed = Some team_sync_new\<rparr>
     = Some team_sync_new"
    by simp
  have h4: "name team_sync_new = ''Team Sync''" "date team_sync_new = ''2025-01-10T10:00''"
    "participants team_sync_new = [''Alice'', ''Bob'']"
    by (simp_all add: team_sync_new_def)
  from handle_new_event_team_sync [OF h1 h2 h3 h4] h1 h4 show ?thesis by blast
qed

text \<open>
  C3: when the modify-event extraction yields the event identifier \<open>Team Sync\<close>, the
  handler returns a response whose message is exactly
  \<^verbatim>\<open>Modified event 'Team Sync' with the requested change.\<close>
\<close>

theorem handle_modify_event_team_sync:
  assumes "parse_modify_event W (t @ [LogInfo ''Processing event modification request'']) c
             (modify_event_request descr) = Inr completion"
      and "first_message completion = Inr m"
      and "parsed m = Some details"
      and "event_identifier details = ''Team Sync''"
  shows "\<exists>resp. fst (handle_modify_event W c descr t) = Inr resp \<and>
           message resp = ''Modified event 'Team Sync' with the requested change.''"
  using handle_modify_event_parsed [OF assms(1-3)] assms(4) by simp

theorem handle_modify_event_team_sync_witness:
  "parse_modify_event (sample_routing_world Modify_event [])
       ([] @ [LogInfo ''Processing event modification request'']) sample_client
       (modify_event_request ''Move Team Sync'')
     = Inr (completion_of (team_sync_modify []))
   \<and> event_identifier (team_sync_modify []) = ''Team Sync''
   \<and> (\<exists>resp. fst (handle_modify_event (sample_routing_world Modify_event []) sample_client
                     ''Move Team Sync'' []) = Inr resp \<and>
           message resp = ''Modified event 'Team Sync' with the requested change.'')"
proof -
  have h1: "parse_modify_event (sample_routing_world Modify_event [])
       ([] @ [LogInfo ''Processing event modification request'']) sample_client
       (modify_event_request ''Move Team Sync'')
     = Inr (completion_of (team_sync_modify []))"
    by (simp add: sample_routing_world_def)
  have h2: "first_message (completion_of (team_sync_modify []))
     = Inr \<lparr>content = None, tool_calls = None, parsed = Some (team_sync_modify [])\<rparr>"
    by (rule first_message_completion_of)
  have h3: "parsed \<lparr>content = None, tool_calls = None, parsed = Some (team_sync_modify [])\<rparr>
     = Some (team_sync_modify [])"
    by simp
  have h4: "event_identifier (team_sync_modify []) = ''Team Sync''"
    by (simp add: team_sync_modify_def)
  from handle_modify_event_team_sync [OF h1 h2 h3 h4] h1 h4 show ?thesis by blast
qed

text \<open>
  C7: each handler builds its response from the extracted record alone, by string
  formatting: the flag is \<open>True\<close>, the link is the fixed prefix followed by the name
  (the event identifier), and the only events of a run are its two log lines around
  the one extraction request. No run of a handler returns a response that reports a
  failure or lacks the link.
\<close>

theorem handlers_format_success_response:
  "(parse_new_event W (t @ [LogInfo ''Processing new event request'']) c
        (new_event_request descr) = Inr completion
      \<and> first_message completion = Inr m \<and> parsed m = Some d
    \<longrightarrow> handle_new_event W c descr t =
          (Inr \<lparr>success = True,
                message = ''Created new event '' @ squote @ name d @ squote @ '' for '' @ date d
                  @ '' with '' @ str_join '', '' (participants d),
                calendar_link = Some (''calendar://new?event='' @ name d)\<rparr>,
           t @ [LogInfo ''Processing new event request'', ChatParse c (new_event_request descr),
                LogInfo (''New event: '' @ dump_new_event W d)]))
   \<and> (parse_modify_event W' (t' @ [LogInfo ''Processing event modification request'']) c'
        (modify_event_request descr') = Inr completion'
      \<and> first_message completion' = Inr m' \<and> parsed m' = Some d'
    \<longrightarrow> handle_modify_event W' c' descr' t' =
          (Inr \<lparr>success = True,
                message = ''Modified event '' @ squote @ event_identifier d' @ squote
                  @ '' with the requested change.'',
                calendar_link = Some (''calendar://modify?event='' @ event_identifier d')\<rparr>,
           t' @ [LogInfo ''Processing event modification request'',
                 ChatParse c' (modify_event_request descr'),
                 LogInfo (''Modified event: '' @ dump_modify_event W' d')]))
   \<and> (\<forall>resp. fst (handle_new_event W c descr t) = Inr resp \<longrightarrow>
         success resp \<and> (\<exists>nm. calendar_link resp = Some (''calendar://new?event='' @ nm)))
   \<and> (\<forall>resp. fst (handle_modify_event W' c' descr' t') = Inr resp \<longrightarrow>
         success resp \<and> (\<exists>nm. calendar_link resp = Some (''calendar://modify?event='' @ nm)))"
proof (intro conjI impI allI)
  assume "parse_new_event W (t @ [LogInfo ''Processing new event request'']) c
        (new_event_request descr) = Inr completion
      \<and> first_message completion = Inr m \<and> parsed m = Some d"
  then show "handle_new_event W c descr t =
          (Inr \<lparr>success = True,
                message = ''Created new event '' @ squote @ name d @ squote @ '' for '' @ date d
                  @ '' with '' @ str_join '', '' (participants d),
                calendar_link = Some (''calendar://new?event='' @ name d)\<rparr>,
           t @ [LogInfo ''Processing new event request'', ChatParse c (new_event_request descr),
                LogInfo (''New event: '' @ dump_new_event W d)])"
    using handle_new_event_parsed by blast
next
  assume "parse_modify_event W' (t' @ [LogInfo ''Processing event modification request'']) c'
        (modify_event_request descr') = Inr completion'
      \<and> first_message completion' = Inr m' \<and> parsed m' = Some d'"
  then show "handle_modify_event W' c' descr' t' =
          (Inr \<lparr>success = True,
                message = ''Modified event '' @ squote @ event_identifier d' @ squote
                  @ '' with the requested change.'',
                calendar_link = Some (''calendar://modify?event='' @ event_identifier d')\<rparr>,
           t' @ [LogInfo ''Processing event modification request'',
                 ChatParse c' (modify_event_request descr'),
                 LogInfo (''Modified event: '' @ dump_modify_event W' d')])"
    using handle_modify_event_parsed by blast
next
  fix resp
  assume "fst (handle_new_event W c descr t) = Inr resp"
  then show "success resp" using handle_new_event_returns by blast
next
  fix resp
  assume "fst (handle_new_event W c descr t) = Inr resp"
  then show "\<exists>nm. calendar_link resp = Some (''calendar://new?event='' @ nm)"
    using handle_new_event_returns by blast
next
  fix resp
  assume "fst (handle_modify_event W' c' descr' t') = Inr resp"
  then show "success resp" using handle_modify_event_returns by blast
next
  fix resp
  assume "fst (handle_modify_event W' c' descr' t') = Inr resp"
  then show "\<exists>nm. calendar_link resp = Some (''calendar://modify?event='' @ nm)"
    using handle_modify_event_returns by blast
qed

theorem handlers_format_success_response_witness:
  "parse_new_event (sample_routing_world New_event [])
       ([] @ [LogInfo ''Processing new event request'']) sample_client
       (new_event_request ''Team Sync'')
     = Inr (completion_of team_sync_new)
   \<and> parse_modify_event (sample_routing_world Modify_event [sample_change])
       ([] @ [LogInfo ''Processing event modification request'']) sample_client
       (modify_event_request ''Move Team Sync'')
     = Inr (completion_of (team_sync_modify [sample_change]))
   \<and> fst (handle_new_event (sample_routing_world New_event []) sample_client ''Team Sync'' [])
     = Inr \<lparr>success = True,
            message = ''Created new event 'Team Sync' for 2025-01-10T10:00 with Alice, Bob'',
            calendar_link = Some ''calendar://new?event=Team Sync''\<rparr>
   \<and> fst (handle_modify_event (sample_routing_world Modify_event [sample_change]) sample_client
          ''Move Team Sync'' [])
     = Inr \<lparr>success = True,
            message = ''Modified event 'Team Sync' with the requested change.'',
            calendar_link = Some ''calendar://modify?event=Team Sync''\<rparr>"
proof -
  let ?W = "sample_routing_world New_event []"
  let ?W' = "sample_routing_world Modify_event [sample_change]"
  let ?m = "\<lparr>content = None, tool_calls = None, parsed = Some team_sync_new\<rparr>"
  let ?m' = "\<lparr>content = None, tool_calls = None,
              parsed = Some (team_sync_modify [sample_change])\<rparr>"
  have a: "parse_new_event ?W ([] @ [LogInfo ''Processing new event request'']) sample_client
       (new_event_request ''Team Sync'') = Inr (completion_of team_sync_new)"
    by (simp add: sample_routing_world_def)
  have a': "first_message (completion_of team_sync_new) = Inr ?m \<and> parsed ?m = Some team_sync_new"
    by (simp add: first_message_completion_of)
  have b: "parse_modify_event ?W' ([] @ [LogInfo ''Processing event modification request''])
       sample_client (modify_event_request ''Move Team Sync'')
     = Inr (completion_of (team_sync_modify [sample_change]))"
    by (simp add: sample_routing_world_def)
  have b': "first_message (completion_of (team_sync_modify [sample_change])) = Inr ?m'
      \<and> parsed ?m' = Some (team_sync_modify [sample_change])"
    by (simp add: first_message_completion_of)
  from handlers_format_success_response
    [where W = ?W and t = "[]" and c = sample_client and descr = "''Team Sync''"
       and completion = "completion_of team_sync_new" and m = ?m and d = team_sync_new
       and W' = ?W' and t' = "[]" and c' = sample_client and descr' = "''Move Team Sync''"
       and completion' = "completion_of (team_sync_modify [sample_change])" and m' = ?m'
       and d' = "team_sync_modify [sample_change]"]
    a a' b b'
  show ?thesis
    by (simp add: team_sync_new_def team_sync_modify_def)
qed

text \<open>
  C10: the response of \<open>handle_modify_event\<close> (flag, message and link) is determined
  by the extracted event identifier. Two runs whose extraction results agree on it
  return the same response, whatever the changes and the participants to add or to
  remove, and whatever the description, the client and the trace so far.
\<close>

theorem handle_modify_event_identifier_only:
  assumes "parse_modify_event W1 (t1 @ [LogInfo ''Processing event modification request'']) c1
             (modify_event_request descr1) = Inr completion1"
      and "first_message completion1 = Inr m1"
      and "parsed m1 = Some d1"
      and "parse_modify_event W2 (t2 @ [LogInfo ''Processing event modification request'']) c2
             (modify_event_request descr2) = Inr completion2"
      and "first_message completion2 = Inr m2"
      and "parsed m2 = Some d2"
      and "event_identifier d1 = event_identifier d2"
  shows "fst (handle_modify_event W1 c1 descr1 t1) = fst (handle_modify_event W2 c2 descr2 t2)"
  using handle_modify_event_parsed [OF assms(1-3)] handle_modify_event_parsed [OF assms(4-6)]
    assms(7) by simp

theorem handle_modify_event_identifier_only_witness:
  "team_sync_modify [] \<noteq> team_sync_modify [sample_change]
   \<and> event_identifier (team_sync_modify []) = event_identifier (team_sync_modify [sample_change])
   \<and> fst (handle_modify_event (sample_routing_world Modify_event []) sample_client
            ''Move Team Sync'' [])
     = fst (handle_modify_event (sample_routing_world Modify_event [sample_change]) sample_client
            ''Move Team Sync to Saturday'' [LogInfo ''earlier''])"
proof -
  let ?W1 = "sample_routing_world Modify_event []"
  let ?W2 = "sample_routing_world Modify_event [sample_change]"
  have a1: "parse_modify_event ?W1 ([] @ [LogInfo ''Processing event modification request''])
       sample_client (modify_event_request ''Move Team Sync'')
     = Inr (completion_of (team_sync_modify []))"
    by (simp add: sample_routing_world_def)
  have a2: "first_message (completion_of (team_sync_modify []))
     = Inr \<lparr>content = None, tool_calls = None, parsed = Some (team_sync_modify [])\<rparr>"
    by (rule first_message_completion_of)
  have a3: "parsed \<lparr>content = None, tool_calls = None, parsed = Some (team_sync_modify [])\<rparr>
     = Some (team_sync_modify [])"
    by simp
  have b1: "parse_modify_event ?W2
       ([LogInfo ''earlier''] @ [LogInfo ''Processing event modification request''])
       sample_client (modify_event_request ''Move Team Sync to Saturday'')
     = Inr (completion_of (team_sync_modify [sample_change]))"
    by (simp add: sample_routing_world_def)
  have b2: "first_message (completion_of (team_sync_modify [sample_change]))
     = Inr \<lparr>content = None, tool_calls = None, parsed = Some (team_sync_modify [sample_change])\<rparr>"
    by (rule first_message_completion_of)
  have b3: "parsed \<lparr>content = None, tool_calls = None,
                    parsed = Some (team_sync_modify [sample_change])\<rparr>
     = Some (team_sync_modify [sample_change])"
    by simp
  have e: "event_identifier (team_sync_modify []) = event_identifier (team_sync_modify [sample_change])"
    by (simp add: team_sync_modify_def)
  have d: "team_sync_modify [] \<noteq> team_sync_modify [sample_change]"
    by (simp add: team_sync_modify_def)
  from handle_modify_event_identifier_only [OF a1 a2 a3 b1 b2 b3 e] d e show ?thesis by simp
qed


section \<open>Properties of the tool-calling loop\<close>

lemma call_function_other:
  "nm \<noteq> ''get_weather'' \<Longrightarrow> call_function L W nm args t = (Inr PyNone, t)"
  by (simp add: call_function_def)

text \<open>
  C4: for a name other than \<open>get_weather\<close>, \<open>call_function\<close> returns \<^verbatim>\<open>None\<close> and
  does nothing else; the loop then appends, after the assistant message, a tool
  message with the id of the call whose content is the text \<^verbatim>\<open>null\<close>.
\<close>

theorem call_function_unknown_name:
  assumes "nm \<noteq> ''get_weather''"
  shows "call_function L W nm args t = (Inr PyNone, t)
       \<and> (\<forall>tc m rest msgs.
             fn_name (tc_function tc) = nm \<and>
             json_loads L (arguments (tc_function tc)) = Inr args \<longrightarrow>
             tool_loop L W m (tc # rest) msgs t =
               tool_loop L W m rest
                 (msgs @ [MessageObj m,
                          DictMsg [(''role'', ''tool''), (''tool_call_id'', tc_id tc),
                                   (''content'', ''null'')]]) t)"
  using assms by (simp add: call_function_other)

theorem call_function_unknown_name_witness:
  "''get_time'' \<noteq> ''get_weather''
   \<and> call_function sample_lib (sample_tools_world [unknown_call]) ''get_time'' (PyDict []) []
       = (Inr PyNone, [])
   \<and> tool_loop sample_lib (sample_tools_world [unknown_call]) (assistant_message [unknown_call])
        [unknown_call] messages []
       = (Inr (),
          messages @ [MessageObj (assistant_message [unknown_call]),
                      DictMsg [(''role'', ''tool''), (''tool_call_id'', ''call_2''),
                               (''content'', ''null'')]],
          [])"
proof -
  have h: "''get_time'' \<noteq> ''get_weather''" by simp
  have f: "fn_name (tc_function unknown_call) = ''get_time''"
    "json_loads sample_lib (arguments (tc_function unknown_call)) = Inr (PyDict [])"
    "tc_id unknown_call = ''call_2''"
    by (simp_all add: unknown_call_def sample_lib_def paris_arguments_def)
  from call_function_unknown_name [OF h, of sample_lib "sample_tools_world [unknown_call]"
      "PyDict []" "[]"] h f
  show ?thesis by simp
qed

lemma bind_kwargs_both:
  assumes "set (map fst kvs) \<subseteq> {''latitude'', ''longitude''}"
      and "map_of kvs ''latitude'' = Some a"
      and "map_of kvs ''longitude'' = Some b"
  shows "bind_kwargs (PyDict kvs) = Inr (a, b)"
proof -
  have "list_all (\<lambda>k. k = ''latitude'' \<or> k = ''longitude'') (map fst kvs)"
    using assms(1) by (auto simp add: list_all_iff)
  then show ?thesis using assms(2,3) by (simp add: bind_kwargs_def)
qed

lemma get_weather_trace:
  "snd (get_weather L W latitude longitude t) =
     t @ [HttpGet (''https://api.open-meteo.com/v1/forecast?latitude='' @ py_str L latitude
            @ ''&longitude='' @ py_str L longitude
            @ ''&current=temperature_2m,wind_speed_10m''
            @ ''&hourly=temperature_2m,relative_humidity_2m,wind_speed_10m'')]"
  by (simp add: get_weather_def Let_def split: sum.splits)

text \<open>
  C5: for a response whose one tool call names \<open>get_weather\<close> and whose arguments
  decode to latitude 48.85 and longitude 2.35, the loop calls \<open>get_weather\<close> with
  exactly these two values (the request it sends carries them), and when
  \<open>get_weather\<close> returns \<open>v\<close> it appends a tool message with the id of the call
  whose content is \<open>json_dumps v\<close>; when \<open>get_weather\<close> raises, so does the loop.
\<close>

theorem tool_loop_get_weather_paris:
  assumes "first_message completion = Inr m"
      and "tool_calls m = Some [tc]"
      and "fn_name (tc_function tc) = ''get_weather''"
      and "json_loads L (arguments (tc_function tc)) = Inr (PyDict kvs)"
      and "set (map fst kvs) \<subseteq> {''latitude'', ''longitude''}"
      and "map_of kvs ''latitude'' = Some (PyFloat 48.85)"
      and "map_of kvs ''longitude'' = Some (PyFloat 2.35)"
  shows "call_function L W ''get_weather'' (PyDict kvs) t
           = get_weather L W (PyFloat 48.85) (PyFloat 2.35) t
       \<and> snd (get_weather L W (PyFloat 48.85) (PyFloat 2.35) t) =
           t @ [HttpGet (''https://api.open-meteo.com/v1/forecast?latitude='' @ float_repr L 48.85
                  @ ''&longitude='' @ float_repr L 2.35
                  @ ''&current=temperature_2m,wind_speed_10m''
                  @ ''&hourly=temperature_2m,relative_humidity_2m,wind_speed_10m'')]
       \<and> run_tool_calls L W completion msgs t =
           (case get_weather L W (PyFloat 48.85) (PyFloat 2.35) t of
              (Inl e, t') \<Rightarrow> (Inl e, msgs @ [MessageObj m], t')
            | (Inr v, t') \<Rightarrow>
                (Inr (),
                 msgs @ [MessageObj m,
                         DictMsg [(''role'', ''tool''), (''tool_call_id'', tc_id tc),
                                  (''content'', json_dumps L v)]],
                 t'))"
proof -
  have b: "bind_kwargs (PyDict kvs) = Inr (PyFloat 48.85, PyFloat 2.35)"
    using assms(5-7) by (rule bind_kwargs_both)
  have c: "call_function L W ''get_weather'' (PyDict kvs) t
           = get_weather L W (PyFloat 48.85) (PyFloat 2.35) t"
    by (simp add: call_function_def b)
  have tr: "snd (get_weather L W (PyFloat 48.85) (PyFloat 2.35) t) =
           t @ [HttpGet (''https://api.open-meteo.com/v1/forecast?latitude='' @ float_repr L 48.85
                  @ ''&longitude='' @ float_repr L 2.35
                  @ ''&current=temperature_2m,wind_speed_10m''
                  @ ''&hourly=temperature_2m,relative_humidity_2m,wind_speed_10m'')]"
    by (simp add: get_weather_trace py_str_def)
  have r: "run_tool_calls L W completion msgs t =
           (case get_weather L W (PyFloat 48.85) (PyFloat 2.35) t of
              (Inl e, t') \<Rightarrow> (Inl e, msgs @ [MessageObj m], t')
            | (Inr v, t') \<Rightarrow>
                (Inr (),
                 msgs @ [MessageObj m,
                         DictMsg [(''role'', ''tool''), (''tool_call_id'', tc_id tc),
                                  (''content'', json_dumps L v)]],
                 t'))"
    using assms(1-4) c
    by (simp add: run_tool_calls_def split: prod.splits sum.splits)
  from c tr r show ?thesis by blast
qed

theorem tool_loop_get_weather_paris_witness:
  "fn_name (tc_function paris_call) = ''get_weather''
   \<and> json_loads sample_lib (arguments (tc_function paris_call))
       = Inr (PyDict [(''latitude'', PyFloat 48.85), (''longitude'', PyFloat 2.35)])
   \<and> run_tool_calls sample_lib (sample_tools_world [paris_call])
        \<lparr>choices = [\<lparr>choice_message = assistant_message [paris_call]\<rparr>]\<rparr> messages []
       = (Inr (),
          messages @ [MessageObj (assistant_message [paris_call]),
                      DictMsg [(''role'', ''tool''), (''tool_call_id'', ''call_1''),
                               (''content'', json_dumps sample_lib paris_weather)]],
          [HttpGet (''https://api.open-meteo.com/v1/forecast?latitude=48.85&longitude=2.35''
             @ ''&current=temperature_2m,wind_speed_10m''
             @ ''&hourly=temperature_2m,relative_humidity_2m,wind_speed_10m'')])"
proof -
  let ?m = "assistant_message [paris_call]"
  let ?kvs = "[(''latitude'', PyFloat 48.85), (''longitude'', PyFloat 2.35)]"
  have h1: "first_message \<lparr>choices = [\<lparr>choice_message = ?m\<rparr>]\<rparr> = Inr ?m"
    by (simp add: first_message_def)
  have h2: "tool_calls ?m = Some [paris_call]"
    by (simp add: assistant_message_def)
  have h3: "fn_name (tc_function paris_call) = ''get_weather''"
    by (simp add: paris_call_def)
  have h4: "json_loads sample_lib (arguments (tc_function paris_call)) = Inr (PyDict ?kvs)"
    by (simp add: paris_call_def sample_lib_def)
  have h5: "set (map fst ?kvs) \<subseteq> {''latitude'', ''longitude''}"
    by simp
  have h6: "map_of ?kvs ''latitude'' = Some (PyFloat 48.85)"
    by simp
  have h7: "map_of ?kvs ''longitude'' = Some (PyFloat 2.35)"
    by simp
  have g: "get_weather sample_lib (sample_tools_world [paris_call]) (PyFloat 48.85) (PyFloat 2.35) []
     = (Inr paris_weather,
        [HttpGet (''https://api.open-meteo.com/v1/forecast?latitude=48.85&longitude=2.35''
             @ ''&current=temperature_2m,wind_speed_10m''
             @ ''&hourly=temperature_2m,relative_humidity_2m,wind_speed_10m'')])"
    by (simp add: get_weather_def sample_tools_world_def subscript_def py_str_def sample_lib_def
        Let_def)
  have i: "tc_id paris_call = ''call_1''"
    by (simp add: paris_call_def)
  from tool_loop_get_weather_paris [OF h1 h2 h3 h4 h5 h6 h7,
      of "sample_tools_world [paris_call]" "[]" messages] h3 h4 g i
  show ?thesis by simp
qed

lemma count_interleaved:
  assumes "\<forall>x \<in> set tool_msgs. x \<noteq> MessageObj m"
  shows "count_list (interleaved m tool_msgs) (MessageObj m) = length tool_msgs"
  using assms by (induction tool_msgs) (simp_all add: interleaved_def)

lemma tool_loop_completed:
  assumes "tool_loop L W m tcs msgs t = (Inr (), msgs', t')"
  shows "\<exists>results. length results = length tcs \<and>
           msgs' = msgs @ interleaved m (map2 (tool_message L) tcs results)"
  using assms
proof (induction tcs arbitrary: msgs t)
  case Nil
  then show ?case by (simp add: interleaved_def)
next
  case (Cons tc rest)
  from Cons.prems obtain args where a: "json_loads L (arguments (tc_function tc)) = Inr args"
    by (auto split: sum.splits)
  from Cons.prems a obtain result t1 where
    c: "call_function L W (fn_name (tc_function tc)) args t = (Inr result, t1)"
    by (auto simp add: Let_def split: prod.splits sum.splits)
  from Cons.prems a c have
    "tool_loop L W m rest (msgs @ [MessageObj m] @ [tool_message L tc result]) t1
       = (Inr (), msgs', t')"
    by (simp add: Let_def tool_message_def)
  from Cons.IH [OF this] obtain results where
    r: "length results = length rest"
       "msgs' = (msgs @ [MessageObj m] @ [tool_message L tc result])
                  @ interleaved m (map2 (tool_message L) rest results)"
    by blast
  have "length (result # results) = length (tc # rest)" using r(1) by simp
  moreover have "msgs' = msgs @ interleaved m (map2 (tool_message L) (tc # rest) (result # results))"
    using r(2) by (simp add: interleaved_def)
  ultimately show ?case by blast
qed

text \<open>
  C9: when the loop completes on a response with \<open>k\<close> tool calls, the conversation
  has grown by \<open>k\<close> pairs, each a copy of the assistant message followed by the tool
  message of one call: the assistant message occurs \<open>k\<close> times among the appended
  entries, and for \<open>k > 1\<close> the conversation is not the assistant message once
  followed by the tool messages.
\<close>

theorem tool_loop_repeats_assistant_message:
  assumes "first_message completion = Inr m"
      and "tool_calls m = Some tcs"
      and "run_tool_calls L W completion msgs t = (Inr (), msgs', t')"
  shows "(\<exists>results. length results = length tcs \<and>
            msgs' = msgs @ concat (map2 (\<lambda>tc r. [MessageObj m, tool_message L tc r]) tcs results))
       \<and> count_list (drop (length msgs) msgs') (MessageObj m) = length tcs
       \<and> (1 < length tcs \<longrightarrow>
            (\<forall>tool_msgs. (\<forall>x \<in> set tool_msgs. x \<noteq> MessageObj m) \<longrightarrow>
               msgs' \<noteq> msgs @ MessageObj m # tool_msgs))"
proof -
  from assms have "tool_loop L W m tcs msgs t = (Inr (), msgs', t')"
    by (simp add: run_tool_calls_def)
  from tool_loop_completed [OF this] obtain results where
    r: "length results = length tcs"
       "msgs' = msgs @ interleaved m (map2 (tool_message L) tcs results)"
    by blast
  have i: "interleaved m (map2 (tool_message L) tcs results)
             = concat (map2 (\<lambda>tc r. [MessageObj m, tool_message L tc r]) tcs results)"
    by (simp add: interleaved_def map_zip_map2 comp_def case_prod_unfold)
  have "\<forall>x \<in> set (map2 (tool_message L) tcs results). x \<noteq> MessageObj m"
    by (auto simp add: tool_message_def)
  from count_interleaved [OF this] r
  have cnt: "count_list (drop (length msgs) msgs') (MessageObj m) = length tcs"
    by simp
  have once: "1 < length tcs \<longrightarrow>
            (\<forall>tool_msgs. (\<forall>x \<in> set tool_msgs. x \<noteq> MessageObj m) \<longrightarrow>
               msgs' \<noteq> msgs @ MessageObj m # tool_msgs)"
  proof (intro impI allI notI)
    fix tool_msgs
    assume k: "1 < length tcs" and d: "\<forall>x \<in> set tool_msgs. x \<noteq> MessageObj m"
      and e: "msgs' = msgs @ MessageObj m # tool_msgs"
    from d have "count_list tool_msgs (MessageObj m) = 0"
      by (auto simp add: count_list_0_iff)
    with e have "count_list (drop (length msgs) msgs') (MessageObj m) = 1" by simp
    with cnt k show False by simp
  qed
  from r i cnt once show ?thesis by auto
qed


theorem tool_loop_repeats_assistant_message_witness:
  "run_tool_calls sample_lib (sample_tools_world [paris_call, unknown_call])
       \<lparr>choices = [\<lparr>choice_message = assistant_message [paris_call, unknown_call]\<rparr>]\<rparr>
       messages []
     = (Inr (),
        messages @
          [MessageObj (assistant_message [paris_call, unknown_call]),
           tool_message sample_lib paris_call paris_weather,
           MessageObj (assistant_message [paris_call, unknown_call]),
           tool_message sample_lib unknown_call PyNone],
        [HttpGet (''https://api.open-meteo.com/v1/forecast?latitude=48.85&longitude=2.35''
           @ ''&current=temperature_2m,wind_speed_10m''
           @ ''&hourly=temperature_2m,relative_humidity_2m,wind_speed_10m'')])
   \<and> count_list
        (drop (length messages)
          (messages @
            [MessageObj (assistant_message [paris_call, unknown_call]),
             tool_message sample_lib paris_call paris_weather,
             MessageObj (assistant_message [paris_call, unknown_call]),
             tool_message sample_lib unknown_call PyNone]))
        (MessageObj (assistant_message [paris_call, unknown_call])) = 2"
proof -
  let ?m = "assistant_message [paris_call, unknown_call]"
  let ?completion = "\<lparr>choices = [\<lparr>choice_message = ?m\<rparr>]\<rparr>"
  have h1: "first_message ?completion = Inr ?m"
    by (simp add: first_message_def)
  have h2: "tool_calls ?m = Some [paris_call, unknown_call]"
    by (simp add: assistant_message_def)
  have h3: "run_tool_calls sample_lib (sample_tools_world [paris_call, unknown_call]) ?completion
       messages []
     = (Inr (),
        messages @
          [MessageObj ?m, tool_message sample_lib paris_call paris_weather,
           MessageObj ?m, tool_message sample_lib unknown_call PyNone],
        [HttpGet (''https://api.open-meteo.com/v1/forecast?latitude=48.85&longitude=2.35''
           @ ''&current=temperature_2m,wind_speed_10m''
           @ ''&hourly=temperature_2m,relative_humidity_2m,wind_speed_10m'')])"
    by (simp add: run_tool_calls_def first_message_def assistant_message_def paris_call_def
        unknown_call_def sample_lib_def paris_arguments_def call_function_def bind_kwargs_def
        get_weather_def sample_tools_world_def subscript_def py_str_def tool_message_def
        paris_weather_def Let_def)
  from tool_loop_repeats_assistant_message [OF h1 h2 h3] h3 show ?thesis
    by simp
qed

section \<open>Properties of the basic completion\<close>

lemma stdout_append: "stdout (xs @ ys) = stdout xs @ stdout ys"
  by (induction xs rule: stdout.induct) simp_all

lemma basic_script_key_set:
  assumes "load_dotenv dotenv environ0 ''OPENAI_API_KEY'' = Some k"
  shows "basic_script create dotenv environ0 =
           (case create [print (Some k)] \<lparr>api_key = k\<rparr> basic_request of
              Inl e \<Rightarrow> (Inl e, [print (Some k), ChatCreate \<lparr>api_key = k\<rparr> basic_request])
            | Inr completion \<Rightarrow>
                (case first_message completion of
                   Inl e \<Rightarrow> (Inl e, [print (Some k), ChatCreate \<lparr>api_key = k\<rparr> basic_request])
                 | Inr m \<Rightarrow>
                     (Inr (), [print (Some k), ChatCreate \<lparr>api_key = k\<rparr> basic_request,
                               print (content m)])))"
  using assms by (simp add: basic_script_def Let_def OpenAI_def split: sum.splits)

lemma basic_script_stdout:
  assumes "load_dotenv dotenv environ0 ''OPENAI_API_KEY'' = Some k"
  shows "stdout (snd (basic_script create dotenv environ0)) =
           k @ [CHR 0x0A] @ response_output (create [print (Some k)] \<lparr>api_key = k\<rparr> basic_request)"
  by (simp add: basic_script_key_set [OF assms] response_output_def split: sum.splits)
    (simp add: print_def str_opt_def)

lemma first_line:
  assumes "CHR 0x0A \<notin> set k"
  shows "takeWhile (\<lambda>c. c \<noteq> CHR 0x0A) (k @ [CHR 0x0A] @ r) = k"
  using assms by (induction k) auto

text \<open>
  C8: with the variable \<open>OPENAI_API_KEY\<close> set to \<open>k\<close>, the first thing the script
  does is to write \<open>k\<close> and a newline to standard output, before the request is sent
  and so before the response is printed. Two runs whose keys differ write different
  output, when the endpoint answers both alike, and also whatever it answers when
  neither key contains a newline.
\<close>

theorem basic_script_prints_api_key:
  assumes "load_dotenv dotenv1 environ1 ''OPENAI_API_KEY'' = Some k1"
      and "load_dotenv dotenv2 environ2 ''OPENAI_API_KEY'' = Some k2"
      and "k1 \<noteq> k2"
      and "create1 [print (Some k1)] \<lparr>api_key = k1\<rparr> basic_request
             = create2 [print (Some k2)] \<lparr>api_key = k2\<rparr> basic_request
           \<or> (CHR 0x0A \<notin> set k1 \<and> CHR 0x0A \<notin> set k2)"
  shows "(\<exists>rest. snd (basic_script create1 dotenv1 environ1) = Stdout (k1 @ [CHR 0x0A]) # rest
            \<and> stdout (snd (basic_script create1 dotenv1 environ1))
                = k1 @ [CHR 0x0A] @ stdout rest)
       \<and> stdout (snd (basic_script create1 dotenv1 environ1))
           \<noteq> stdout (snd (basic_script create2 dotenv2 environ2))"
proof -
  let ?a1 = "create1 [print (Some k1)] \<lparr>api_key = k1\<rparr> basic_request"
  let ?a2 = "create2 [print (Some k2)] \<lparr>api_key = k2\<rparr> basic_request"
  have s1: "stdout (snd (basic_script create1 dotenv1 environ1))
              = k1 @ [CHR 0x0A] @ response_output ?a1"
    using assms(1) by (rule basic_script_stdout)
  have s2: "stdout (snd (basic_script create2 dotenv2 environ2))
              = k2 @ [CHR 0x0A] @ response_output ?a2"
    using assms(2) by (rule basic_script_stdout)
  have d: "k1 @ [CHR 0x0A] @ response_output ?a1 \<noteq> k2 @ [CHR 0x0A] @ response_output ?a2"
  proof
    assume e: "k1 @ [CHR 0x0A] @ response_output ?a1 = k2 @ [CHR 0x0A] @ response_output ?a2"
    from assms(4) show False
    proof
      assume "?a1 = ?a2"
      with e assms(3) show False by simp
    next
      assume n: "CHR 0x0A \<notin> set k1 \<and> CHR 0x0A \<notin> set k2"
      from e have "takeWhile (\<lambda>c. c \<noteq> CHR 0x0A) (k1 @ [CHR 0x0A] @ response_output ?a1)
                 = takeWhile (\<lambda>c. c \<noteq> CHR 0x0A) (k2 @ [CHR 0x0A] @ response_output ?a2)"
        by simp
      moreover from n have "takeWhile (\<lambda>c. c \<noteq> CHR 0x0A) (k1 @ [CHR 0x0A] @ response_output ?a1) = k1"
        by (intro first_line) simp
      moreover from n have "takeWhile (\<lambda>c. c \<noteq> CHR 0x0A) (k2 @ [CHR 0x0A] @ response_output ?a2) = k2"
        by (intro first_line) simp
      ultimately have "k1 = k2" by simp
      with assms(3) show False by simp
    qed
  qed
  have f: "\<exists>rest. snd (basic_script create1 dotenv1 environ1) = Stdout (k1 @ [CHR 0x0A]) # rest
            \<and> stdout (snd (basic_script create1 dotenv1 environ1))
                = k1 @ [CHR 0x0A] @ stdout rest"
    by (simp add: basic_script_key_set [OF assms(1)] print_def str_opt_def split: sum.splits)
  from s1 s2 d f show ?thesis by simp
qed

theorem basic_script_prints_api_key_witness:
  "stdout (snd (basic_script (sample_create (Some ''A limerick'')) Map.empty
             [''OPENAI_API_KEY'' \<mapsto> ''sk-one'']))
     = ''sk-one'' @ [CHR 0x0A] @ ''A limerick'' @ [CHR 0x0A]
   \<and> stdout (snd (basic_script (sample_create (Some ''A limerick'')) Map.empty
             [''OPENAI_API_KEY'' \<mapsto> ''sk-two'']))
     = ''sk-two'' @ [CHR 0x0A] @ ''A limerick'' @ [CHR 0x0A]
   \<and> stdout (snd (basic_script (sample_create (Some ''A limerick'')) Map.empty
             [''OPENAI_API_KEY'' \<mapsto> ''sk-one'']))
     \<noteq> stdout (snd (basic_script (sample_create (Some ''A limerick'')) Map.empty
             [''OPENAI_API_KEY'' \<mapsto> ''sk-two'']))"
proof -
  let ?create = "sample_create (Some ''A limerick'')"
  have h1: "load_dotenv Map.empty [''OPENAI_API_KEY'' \<mapsto> ''sk-one''] ''OPENAI_API_KEY''
     = Some ''sk-one''"
    by (simp add: load_dotenv_def)
  have h2: "load_dotenv Map.empty [''OPENAI_API_KEY'' \<mapsto> ''sk-two''] ''OPENAI_API_KEY''
     = Some ''sk-two''"
    by (simp add: load_dotenv_def)
  have h3: "''sk-one'' \<noteq> ''sk-two''" by simp
  have h4: "?create [print (Some ''sk-one'')] \<lparr>api_key = ''sk-one''\<rparr> basic_request
     = ?create [print (Some ''sk-two'')] \<lparr>api_key = ''sk-two''\<rparr> basic_request
     \<or> (CHR 0x0A \<notin> set ''sk-one'' \<and> CHR 0x0A \<notin> set ''sk-two'')"
    by (simp add: sample_create_def)
  have a: "stdout (snd (basic_script ?create Map.empty [''OPENAI_API_KEY'' \<mapsto> ''sk-one'']))
     = ''sk-one'' @ [CHR 0x0A] @ ''A limerick'' @ [CHR 0x0A]"
    by (simp add: basic_script_def load_dotenv_def OpenAI_def sample_create_def
        first_message_def print_def str_opt_def Let_def)
  have b: "stdout (snd (basic_script ?create Map.empty [''OPENAI_API_KEY'' \<mapsto> ''sk-two'']))
     = ''sk-two'' @ [CHR 0x0A] @ ''A limerick'' @ [CHR 0x0A]"
    by (simp add: basic_script_def load_dotenv_def OpenAI_def sample_create_def
        first_message_def print_def str_opt_def Let_def)
  from basic_script_prints_api_key [where ?create1.0 = ?create and ?create2.0 = ?create,
      OF h1 h2 h3 h4] a b
  show ?thesis by blast
qed


end
